theory Spec2Isabelle
  imports Main "HOL-Library.Word"
begin

unbundle bit_operations_syntax

section \<open>amfidupe: the replacement trust daemon of utils.h\<close>

text \<open>
  The development follows \<^verbatim>\<open>src/manticore/Jailbreak/utils.h\<close>. Every system call and
  every routine of another file (the kernel's special-port registry, the file system, the
  hash routine, threadexec) is an oracle: a field of an environment record or an argument
  that fixes what the call returns. Effects are recorded as events, in program order.
\<close>

subsection \<open>Mach types and constants\<close>

type_synonym mach_port_t = "32 word"
type_synonym kern_return_t = "32 word"
type_synonym int32_t = "32 word"
type_synonym uint64_t = "64 word"
type_synonym uint8_t = "8 word"

text \<open>Values of \<^verbatim>\<open><mach/kern_return.h>\<close>, \<^verbatim>\<open><mach/mig_errors.h>\<close>,
  \<^verbatim>\<open><mach/port.h>\<close> and \<^verbatim>\<open><mach/message.h>\<close>.\<close>

definition KERN_SUCCESS :: kern_return_t where
  "KERN_SUCCESS = 0"

definition KERN_FAILURE :: kern_return_t where
  "KERN_FAILURE = 5"

definition MIG_NO_REPLY :: kern_return_t where
  "MIG_NO_REPLY = - 305"


definition MACH_PORT_NULL :: mach_port_t where
  "MACH_PORT_NULL = 0"

definition MACH_PORT_DEAD :: mach_port_t where
  "MACH_PORT_DEAD = - 1"

definition MACH_MSGH_BITS_COMPLEX :: "32 word" where
  "MACH_MSGH_BITS_COMPLEX = 0x80000000"

definition MACH_MSGH_BITS_REMOTE_MASK :: "32 word" where
  "MACH_MSGH_BITS_REMOTE_MASK = 0x0000001f"

definition MACH_MSG_TYPE_MOVE_SEND_ONCE :: "32 word" where
  "MACH_MSG_TYPE_MOVE_SEND_ONCE = 18"

definition MACH_MSGH_BITS_IS_COMPLEX :: "32 word \<Rightarrow> bool" where
  "MACH_MSGH_BITS_IS_COMPLEX bits = (bits AND MACH_MSGH_BITS_COMPLEX \<noteq> 0)"

definition MACH_MSGH_BITS_REMOTE :: "32 word \<Rightarrow> 32 word" where
  "MACH_MSGH_BITS_REMOTE bits = bits AND MACH_MSGH_BITS_REMOTE_MASK"

text \<open>\<^verbatim>\<open>audit_token_t\<close> is a struct of eight unsigned ints, so that \<^verbatim>\<open>memcmp\<close> over
  \<^verbatim>\<open>sizeof(audit)\<close> bytes returns 0 exactly when the two tokens are equal.\<close>

datatype audit_token_t =
  AuditToken "32 word" "32 word" "32 word" "32 word" "32 word" "32 word" "32 word" "32 word"

definition KERNEL_AUDIT_TOKEN_VALUE :: audit_token_t where
  "KERNEL_AUDIT_TOKEN_VALUE = AuditToken 0 0 0 0 0 0 0 0"

subsection \<open>Events of the request handlers\<close>

text \<open>\<open>Printf\<close> carries the format string of the call. The other events are the calls
  that reach the file system or the hash routine.\<close>

datatype hevent =
    Printf string
  | SysOpen string
  | SysFstat int
  | SysMmap uint64_t int uint64_t
  | ComputeCdhash uint64_t
  | SysMunmap uint64_t
  | SysClose int

fun is_fs_access :: "hevent \<Rightarrow> bool" where
  "is_fs_access (Printf s) = False"
| "is_fs_access (SysOpen p) = True"
| "is_fs_access (SysFstat fd) = True"
| "is_fs_access (SysMmap n fd off) = True"
| "is_fs_access (ComputeCdhash n) = True"
| "is_fs_access (SysMunmap n) = True"
| "is_fs_access (SysClose fd) = True"

subsection \<open>The file system and the hash routine\<close>

text \<open>
  Modelled from the spec: \<^verbatim>\<open>compute_cdhash\<close> of cdhash.h is not part of the sources; it is
  the Hash Oracle, \<^verbatim>\<open>hash(bytes, length) -> fixed-size digest | fails\<close>, so a failing call
  yields no digest. The other fields are the system calls: \<open>sys_open\<close> returns the
  descriptor (negative on failure), \<open>sys_fstat\<close> the error code and \<^verbatim>\<open>st_size\<close>,
  \<open>sys_mmap size fd offset\<close> the mapped bytes or \<open>None\<close> for \<^verbatim>\<open>MAP_FAILED\<close>.
\<close>

record fs_env =
  sys_open :: "string \<Rightarrow> int"
  sys_fstat :: "int \<Rightarrow> int \<times> uint64_t"
  sys_mmap :: "uint64_t \<Rightarrow> int \<Rightarrow> uint64_t \<Rightarrow> uint8_t list option"
  compute_cdhash :: "uint8_t list \<Rightarrow> uint64_t \<Rightarrow> uint8_t list option"

subsection \<open>compute_cdhash_of_file\<close>

text \<open>The result is the returned flag, the content of the \<^verbatim>\<open>cdhash\<close> buffer after the
  call, and the events. The labels \<^verbatim>\<open>fail_2\<close>, \<^verbatim>\<open>fail_1\<close>, \<^verbatim>\<open>fail_0\<close> are the
  tails of the event lists; \<^verbatim>\<open>munmap\<close> is called with \<^verbatim>\<open>file_offset\<close> as its length, as
  the source has it.\<close>

definition compute_cdhash_of_file ::
  "fs_env \<Rightarrow> string \<Rightarrow> uint64_t \<Rightarrow> uint8_t list \<Rightarrow> bool \<times> uint8_t list \<times> hevent list" where
  "compute_cdhash_of_file env path file_offset cdhash =
     (let fd = sys_open env path in
      if fd < 0 then
        (False, cdhash, [SysOpen path, Printf ''Could not open %s''])
      else
        let (err, st_size) = sys_fstat env fd in
        if err \<noteq> 0 then
          (False, cdhash,
           [SysOpen path, SysFstat fd, Printf ''Could not get size of file %s'', SysClose fd])
        else
          let size = st_size in
          if file_offset \<ge> size then
            (False, cdhash,
             [SysOpen path, SysFstat fd, Printf ''Invalid file offset'', SysClose fd])
          else
            let size = size - file_offset in
            case sys_mmap env size fd file_offset of
              None \<Rightarrow>
                (False, cdhash,
                 [SysOpen path, SysFstat fd, SysMmap size fd file_offset, SysClose fd])
            | Some file \<Rightarrow>
                (case compute_cdhash env file size of
                   None \<Rightarrow>
                     (False, cdhash,
                      [SysOpen path, SysFstat fd, SysMmap size fd file_offset,
                       ComputeCdhash size, Printf ''Could not compute cdhash of %s'',
                       SysMunmap file_offset, SysClose fd])
                 | Some digest \<Rightarrow>
                     (True, digest,
                      [SysOpen path, SysFstat fd, SysMmap size fd file_offset,
                       ComputeCdhash size, SysMunmap file_offset, SysClose fd])))"

subsection \<open>The two procedures\<close>

text \<open>The out-parameters of \<^verbatim>\<open>verify_code_directory_mig\<close>: what the pointers refer to
  before and after the call.\<close>

record verdict =
  entitlements_valid :: int32_t
  signature_valid :: int32_t
  unrestrict :: int32_t
  signer_type :: int32_t
  is_apple :: int32_t
  is_developer_code :: int32_t
  cdhash :: "uint8_t list"

definition verify_code_directory_mig ::
  "fs_env \<Rightarrow> mach_port_t \<Rightarrow> string \<Rightarrow> uint64_t \<Rightarrow> int32_t \<Rightarrow> int32_t \<Rightarrow> int32_t \<Rightarrow>
   verdict \<Rightarrow> audit_token_t \<Rightarrow> kern_return_t \<times> verdict \<times> hevent list" where
  "verify_code_directory_mig env amfid_port path file_offset a4 a5 a6 out audit =
     (let kernel_token = KERNEL_AUDIT_TOKEN_VALUE in
      if audit \<noteq> kernel_token then
        (KERN_FAILURE, out, [Printf ''%s(%s, %llu, %u, %u, %u)'', Printf ''%s: Invalid sender %d''])
      else
        let (ok, digest, evs) = compute_cdhash_of_file env path file_offset (cdhash out) in
        if \<not> ok then
          (KERN_FAILURE, out\<lparr>cdhash := digest\<rparr>, Printf ''%s(%s, %llu, %u, %u, %u)'' # evs)
        else
          (KERN_SUCCESS,
           out\<lparr>cdhash := digest,
               entitlements_valid := 1,
               signature_valid := 1,
               unrestrict := 1,
               signer_type := 0,
               is_apple := 1,
               is_developer_code := 0\<rparr>,
           Printf ''%s(%s, %llu, %u, %u, %u)'' # evs))"

text \<open>The result is the return code, the content of \<^verbatim>\<open>*unrestricted_debugging\<close> after the
  call, and the events.\<close>

definition permit_unrestricted_debugging_v2 ::
  "mach_port_t \<Rightarrow> int32_t \<Rightarrow> audit_token_t \<Rightarrow> kern_return_t \<times> int32_t \<times> hevent list" where
  "permit_unrestricted_debugging_v2 amfid_port unrestricted_debugging audit =
     (KERN_FAILURE, unrestricted_debugging, [Printf ''%s()''])"

subsection \<open>The port hijacker\<close>

text \<open>
  The globals of the file, the slot \<^verbatim>\<open>HOST_AMFID_PORT\<close> of the kernel's special-port
  registry and the port names of this task. A port and its name in this task are not told
  apart.
\<close>

datatype threadexec_t = Threadexec (threadexec_task: mach_port_t)

record state =
  special_port :: mach_port_t
  port_space :: "mach_port_t set"
  host_port_main :: mach_port_t
  amfid_port :: mach_port_t
  fake_amfid_port :: mach_port_t
  amfid_tx :: "threadexec_t option"

text \<open>
  Modelled from the spec: the kernel's calls are not part of the sources; they are the
  Kernel special-port registry, \<^verbatim>\<open>get(registryHandle) -> Endpoint | fails\<close> and
  \<^verbatim>\<open>set(registryHandle, Endpoint) -> fails\<close>. The return code of each call is an argument;
  a call that fails changes nothing. \<^verbatim>\<open>mach_port_destroy\<close> removes a valid name from the
  task and ignores \<^verbatim>\<open>MACH_PORT_NULL\<close> and \<^verbatim>\<open>MACH_PORT_DEAD\<close>.
\<close>

definition host_get_amfid_port :: "kern_return_t \<Rightarrow> state \<Rightarrow> mach_port_t option" where
  "host_get_amfid_port kr s = (if kr = KERN_SUCCESS then Some (special_port s) else None)"

definition host_set_amfid_port :: "kern_return_t \<Rightarrow> mach_port_t \<Rightarrow> state \<Rightarrow> state" where
  "host_set_amfid_port kr port s = (if kr = KERN_SUCCESS then s\<lparr>special_port := port\<rparr> else s)"

definition mach_port_construct :: "kern_return_t \<Rightarrow> mach_port_t \<Rightarrow> state \<Rightarrow> state" where
  "mach_port_construct kr name s =
     (if kr = KERN_SUCCESS then s\<lparr>port_space := insert name (port_space s)\<rparr> else s)"

definition mach_port_destroy :: "mach_port_t \<Rightarrow> state \<Rightarrow> state" where
  "mach_port_destroy name s =
     (if name = MACH_PORT_NULL \<or> name = MACH_PORT_DEAD then s
      else s\<lparr>port_space := port_space s - {name}\<rparr>)"

text \<open>What the kernel answers to the calls of \<^verbatim>\<open>replace_amfid_port\<close>: the host port
  of \<^verbatim>\<open>mach_host_self\<close>, the return codes, and the name of the constructed port.\<close>

record hijack_calls =
  mach_host_self :: mach_port_t
  get_kr :: kern_return_t
  construct_kr :: kern_return_t
  construct_name :: mach_port_t
  set_kr :: kern_return_t

definition replace_amfid_port :: "hijack_calls \<Rightarrow> state \<Rightarrow> bool \<times> state \<times> hevent list" where
  "replace_amfid_port k s =
     (let s = s\<lparr>host_port_main := mach_host_self k\<rparr> in
      case host_get_amfid_port (get_kr k) s of
        None \<Rightarrow> (False, s, [Printf ''Could not get amfid's service port''])
      | Some port \<Rightarrow>
          let s = s\<lparr>amfid_port := port\<rparr> in
          if construct_kr k \<noteq> KERN_SUCCESS then
            (False, s, [Printf ''Could not create fake amfid port''])
          else
            let s = mach_port_construct (construct_kr k) (construct_name k) s;
                s = s\<lparr>fake_amfid_port := construct_name k\<rparr>;
                s' = host_set_amfid_port (set_kr k) (fake_amfid_port s) s
            in if set_kr k \<noteq> KERN_SUCCESS then
                 (False, s', [Printf ''Could not register fake amfid port: error %d''])
               else (True, s', [Printf ''Registered new amfid port: 0x%x'']))"

text \<open>The argument is the return code of \<^verbatim>\<open>host_set_amfid_port\<close> in this call.\<close>

definition restore_amfid_port :: "kern_return_t \<Rightarrow> state \<Rightarrow> state \<times> hevent list" where
  "restore_amfid_port kr s =
     (let s1 = host_set_amfid_port kr (amfid_port s) s;
          evs = (if kr \<noteq> KERN_SUCCESS then [Printf ''Could not restore fake amfid port''] else []);
          s2 = mach_port_destroy (fake_amfid_port s1) s1
      in (s2\<lparr>fake_amfid_port := MACH_PORT_NULL\<rparr>, evs))"

subsection \<open>create_amfid_threadexec\<close>

text \<open>
  The Process Directory and the Remote Execution Bridge, which the sources only call.
  \<open>proc_list_pids_with_path path\<close> gives the returned flag and the processes running
  \<open>path\<close>: \<^verbatim>\<open>count\<close> is their number and \<^verbatim>\<open>amfid_pid\<close> the first of them.
  \<open>task_for_pid\<close> is the directory's way from a PID to the task port of that process.
  \<open>threadexec_init\<close> gives \<open>None\<close> for \<^verbatim>\<open>NULL\<close>.
\<close>

record proc_env =
  proc_list_pids_with_path :: "string \<Rightarrow> bool \<times> int list"
  task_for_pid :: "int \<Rightarrow> mach_port_t option"
  threadexec_init :: "mach_port_t \<Rightarrow> threadexec_t option"

definition AMFID_PATH :: string where
  "AMFID_PATH = ''/usr/libexec/amfid''"

text \<open>The second argument is the return code of \<^verbatim>\<open>host_get_amfid_port\<close> in this call.\<close>

definition create_amfid_threadexec ::
  "proc_env \<Rightarrow> kern_return_t \<Rightarrow> state \<Rightarrow> bool \<times> state \<times> hevent list" where
  "create_amfid_threadexec env kr s =
     (let (ok, pids) = proc_list_pids_with_path env AMFID_PATH;
          count = length pids
      in if \<not> ok \<or> count = 0 then (False, s, [Printf ''Could not find amfid process''])
         else if count > 1 then (False, s, [Printf ''Multiple processes with path %s''])
         else
           case host_get_amfid_port kr s of
             None \<Rightarrow> (False, s, [Printf ''Amfid PID: %d'', Printf ''Could not get amfid task''])
           | Some amfid_task \<Rightarrow>
               let s = s\<lparr>amfid_tx := threadexec_init env amfid_task\<rparr> in
               if amfid_tx s = None then
                 (False, s,
                  [Printf ''Amfid PID: %d'', Printf ''Could not create execution context in amfid''])
               else (True, s, [Printf ''Amfid PID: %d'']))"

text \<open>
  The contract of \<^verbatim>\<open>acquire_execution_context\<close> in the words of the specification, for
  comparison: the context is built from the task handle that \<open>task_for_pid\<close> gives for
  the one process found.
\<close>

definition acquire_execution_context_spec :: "proc_env \<Rightarrow> threadexec_t option" where
  "acquire_execution_context_spec env =
     (case proc_list_pids_with_path env AMFID_PATH of
        (ok, [pid]) \<Rightarrow>
          (if ok then
             (case task_for_pid env pid of
                None \<Rightarrow> None
              | Some task \<Rightarrow> threadexec_init env task)
           else None)
      | _ \<Rightarrow> None)"

subsection \<open>Messages\<close>

record mach_msg_header_t =
  msgh_bits :: "32 word"
  msgh_size :: "32 word"
  msgh_remote_port :: mach_port_t
  msgh_local_port :: mach_port_t
  msgh_id :: "32 word"

text \<open>A request: the header, the fields of the procedure it selects, and the audit token
  of the trailer.\<close>

datatype request_body =
    VerifyCodeDirectory string uint64_t int32_t int32_t int32_t
  | PermitUnrestrictedDebugging
  | OtherRequest

record request_t =
  rq_Head :: mach_msg_header_t
  rq_body :: request_body
  rq_audit :: audit_token_t

text \<open>The reply buffer: \<^verbatim>\<open>mig_reply_error_t\<close>, followed by the out-parameters of the
  two procedures.\<close>

record reply_t =
  Head :: mach_msg_header_t
  RetCode :: kern_return_t
  rp_verdict :: verdict
  rp_unrestricted_debugging :: int32_t

subsection \<open>The relay loop\<close>

datatype levent =
    MachMsgReceive kern_return_t
  | AmfidServer "hevent list"
  | MachMsgDestroy
  | AssertFailed string
  | PortInsert mach_port_t "mach_port_t option"
  | MachPortDeallocate mach_port_t
  | RemoteSend mach_port_t "32 word" bool kern_return_t
  | RemotePortDeallocate mach_port_t
  | PidForTask kern_return_t
  | LPrintf string

text \<open>
  \<open>PortInsert p r\<close> is the call of \<^verbatim>\<open>threadexec_mach_port_insert\<close> on the name \<open>p\<close> of
  this task, with the name it gave in the daemon or \<open>None\<close> when it failed.
  \<open>RemoteSend n sz ok kr\<close> is the call of \<^verbatim>\<open>threadexec_call_cv\<close> that makes the daemon
  run \<^verbatim>\<open>mach_msg\<close> on the reply buffer, whose header names the destination \<open>n\<close>: \<open>ok\<close> is
  the flag the call returned and \<open>kr\<close> the return code of the \<^verbatim>\<open>mach_msg\<close> in the daemon,
  which the call stores in \<^verbatim>\<open>kr\<close>.

  What the outside answers in one pass of the loop: the return code of the receiving
  \<^verbatim>\<open>mach_msg\<close> and the message it delivers, the remote name that
  \<^verbatim>\<open>threadexec_mach_port_insert\<close> gives (\<open>None\<close> when it fails), the flag of
  \<^verbatim>\<open>threadexec_call_cv\<close> and the return code of the \<^verbatim>\<open>mach_msg\<close> it ran in the daemon,
  and the return code of \<^verbatim>\<open>pid_for_task\<close>.
\<close>

record iter_env =
  rcv_kr :: kern_return_t
  rcv_request :: request_t
  port_insert :: "mach_port_t option"
  call_ok :: bool
  remote_kr :: kern_return_t
  pid_for_task_kr :: kern_return_t

datatype flow = Continue | Break | Abort

text \<open>The block under the comment \<^verbatim>\<open>Mig semantics\<close>.\<close>

definition mig_semantics :: "request_t \<Rightarrow> reply_t \<Rightarrow> request_t \<times> reply_t \<times> levent list" where
  "mig_semantics request reply =
     (if \<not> MACH_MSGH_BITS_IS_COMPLEX (msgh_bits (Head reply)) then
        if RetCode reply = MIG_NO_REPLY then
          (request, reply\<lparr>Head := (Head reply)\<lparr>msgh_remote_port := MACH_PORT_NULL\<rparr>\<rparr>, [])
        else if RetCode reply \<noteq> KERN_SUCCESS then
          (request\<lparr>rq_Head := (rq_Head request)\<lparr>msgh_remote_port := MACH_PORT_NULL\<rparr>\<rparr>, reply,
           [MachMsgDestroy])
        else (request, reply, [])
      else (request, reply, []))"

text \<open>The code at the label \<^verbatim>\<open>check_amfid\<close>.\<close>

definition check_amfid :: "iter_env \<Rightarrow> levent list \<times> flow" where
  "check_amfid e =
     (if pid_for_task_kr e \<noteq> KERN_SUCCESS then
        ([PidForTask (pid_for_task_kr e), LPrintf ''Amfid died''], Break)
      else ([PidForTask (pid_for_task_kr e)], Continue))"

text \<open>
  One pass of the body of \<^verbatim>\<open>for (;;)\<close>. The dispatcher \<^verbatim>\<open>amfid_server\<close> is the
  argument \<open>srv\<close>: it gets the request and the reply buffer and gives the reply buffer it
  leaves and the events of the procedure it ran. A failed \<^verbatim>\<open>assert\<close> ends the process.
  After a call of \<^verbatim>\<open>threadexec_call_cv\<close> that returned true the source does not look at
  \<^verbatim>\<open>kr\<close>.
\<close>

definition loop_body ::
  "(request_t \<Rightarrow> reply_t \<Rightarrow> reply_t \<times> hevent list) \<Rightarrow> reply_t \<Rightarrow> iter_env \<Rightarrow>
   levent list \<times> reply_t \<times> flow" where
  "loop_body srv reply e =
     (if rcv_kr e \<noteq> KERN_SUCCESS then
        ([MachMsgReceive (rcv_kr e), LPrintf ''Failed to receive message on fake amfid port: %d''],
         reply, Break)
      else
        let request = rcv_request e;
            (reply, devs) = srv request reply;
            (request, reply, mevs) = mig_semantics request reply;
            pre = MachMsgReceive (rcv_kr e) # AmfidServer devs # mevs
        in if MACH_MSGH_BITS_IS_COMPLEX (msgh_bits (Head reply)) then
             (pre @ [AssertFailed ''!MACH_MSGH_BITS_IS_COMPLEX(reply->Head.msgh_bits)''], reply, Abort)
           else if MACH_MSGH_BITS_REMOTE (msgh_bits (Head reply)) \<noteq> MACH_MSG_TYPE_MOVE_SEND_ONCE then
             (pre @ [AssertFailed
                ''MACH_MSGH_BITS_REMOTE(reply->Head.msgh_bits) == MACH_MSG_TYPE_MOVE_SEND_ONCE''],
              reply, Abort)
           else
             case port_insert e of
               None \<Rightarrow>
                 (pre @ [PortInsert (msgh_remote_port (Head reply)) None,
                         LPrintf ''Could not move the send-once right into amfid'',
                         MachPortDeallocate (msgh_remote_port (Head reply))]
                      @ fst (check_amfid e),
                  reply, snd (check_amfid e))
             | Some name \<Rightarrow>
                 let local_name = msgh_remote_port (Head reply);
                     reply = reply\<lparr>Head := (Head reply)\<lparr>msgh_remote_port := name\<rparr>\<rparr>
                 in if \<not> call_ok e then
                      (pre @ [PortInsert local_name (Some name),
                              RemoteSend (msgh_remote_port (Head reply)) (msgh_size (Head reply))
                                False (remote_kr e),
                              LPrintf ''Could not send our reply from amfid: error %d'',
                              RemotePortDeallocate (msgh_remote_port (Head reply))]
                           @ fst (check_amfid e),
                       reply, snd (check_amfid e))
                    else
                      (pre @ [PortInsert local_name (Some name),
                              RemoteSend (msgh_remote_port (Head reply)) (msgh_size (Head reply))
                                True (remote_kr e)],
                       reply, Continue))"

text \<open>
  \<^verbatim>\<open>run_amfid_server\<close> over the answers of the outside, one element for each pass. The
  loop has no bound of its own: when the answers are used up, no further message arrives
  and the receiving \<^verbatim>\<open>mach_msg\<close>, which has no timeout, does not return (\<open>Blocked\<close>).
  \<open>Returned\<close> is a \<^verbatim>\<open>break\<close>, \<open>Aborted\<close> a failed \<^verbatim>\<open>assert\<close>.
\<close>

datatype outcome = Returned | Aborted | Blocked

fun run_amfid_server ::
  "(request_t \<Rightarrow> reply_t \<Rightarrow> reply_t \<times> hevent list) \<Rightarrow> reply_t \<Rightarrow> iter_env list \<Rightarrow>
   levent list \<times> outcome" where
  "run_amfid_server srv reply [] = ([], Blocked)"
| "run_amfid_server srv reply (e # es) =
     (case loop_body srv reply e of
        (evs, reply', Continue) \<Rightarrow>
          (evs @ fst (run_amfid_server srv reply' es), snd (run_amfid_server srv reply' es))
      | (evs, reply', Break) \<Rightarrow> (evs, Returned)
      | (evs, reply', Abort) \<Rightarrow> (evs, Aborted))"

subsection \<open>The dispatcher\<close>

text \<open>
  Modelled from the spec: \<^verbatim>\<open>amfid_server\<close> of amfidServer.h is not part of the sources.
  The Dispatching step routes the request by its procedure selector to one of the two
  procedures above and fills the reply buffer: the return code of the procedure, its
  outputs, and the protocol bookkeeping of the header, whose bits are the reply-port bits of
  the request and nothing else. A request for no known procedure is answered with
  \<^verbatim>\<open>MIG_BAD_ID\<close>. The specification does not fix the size of a reply; the field is left
  as it is.
\<close>

definition MIG_BAD_ID :: kern_return_t where
  "MIG_BAD_ID = - 303"

definition amfid_server :: "fs_env \<Rightarrow> request_t \<Rightarrow> reply_t \<Rightarrow> reply_t \<times> hevent list" where
  "amfid_server env request reply =
     (let head = (Head reply)
           \<lparr>msgh_bits := MACH_MSGH_BITS_REMOTE (msgh_bits (rq_Head request)),
            msgh_remote_port := msgh_remote_port (rq_Head request),
            msgh_local_port := MACH_PORT_NULL\<rparr>
      in case rq_body request of
           VerifyCodeDirectory path file_offset a4 a5 a6 \<Rightarrow>
             (case verify_code_directory_mig env (msgh_local_port (rq_Head request))
                     path file_offset a4 a5 a6 (rp_verdict reply) (rq_audit request) of
                (kr, out, evs) \<Rightarrow> (reply\<lparr>Head := head, RetCode := kr, rp_verdict := out\<rparr>, evs))
         | PermitUnrestrictedDebugging \<Rightarrow>
             (case permit_unrestricted_debugging_v2 (msgh_local_port (rq_Head request))
                     (rp_unrestricted_debugging reply) (rq_audit request) of
                (kr, dbg, evs) \<Rightarrow>
                  (reply\<lparr>Head := head, RetCode := kr, rp_unrestricted_debugging := dbg\<rparr>, evs))
         | OtherRequest \<Rightarrow> (reply\<lparr>Head := head, RetCode := MIG_BAD_ID\<rparr>, []))"

subsection \<open>Predicates on traces\<close>








subsection \<open>The causes of a failed hash computation\<close>

definition cannot_open :: "fs_env \<Rightarrow> string \<Rightarrow> bool" where
  "cannot_open env path = (sys_open env path < 0)"

definition fstat_fails :: "fs_env \<Rightarrow> string \<Rightarrow> bool" where
  "fstat_fails env path = (fst (sys_fstat env (sys_open env path)) \<noteq> 0)"

definition offset_out_of_range :: "fs_env \<Rightarrow> string \<Rightarrow> uint64_t \<Rightarrow> bool" where
  "offset_out_of_range env path file_offset =
     (file_offset \<ge> snd (sys_fstat env (sys_open env path)))"

definition map_or_hash_fails :: "fs_env \<Rightarrow> string \<Rightarrow> uint64_t \<Rightarrow> bool" where
  "map_or_hash_fails env path file_offset =
     (let fd = sys_open env path;
          size = snd (sys_fstat env fd) - file_offset
      in case sys_mmap env size fd file_offset of
           None \<Rightarrow> True
         | Some file \<Rightarrow> compute_cdhash env file size = None)"

subsection \<open>Concrete inputs\<close>

text \<open>A file system with the one file \<^verbatim>\<open>/bin/ls\<close> of four bytes, and the same file system
  with a failing \<^verbatim>\<open>fstat\<close>.\<close>

definition demo_env :: fs_env where
  "demo_env = \<lparr>sys_open = (\<lambda>p. if p = ''/bin/ls'' then 3 else - 1),
               sys_fstat = (\<lambda>fd. (0, 4)),
               sys_mmap = (\<lambda>n fd off. Some (drop (unat off) [1, 2, 3, 4])),
               compute_cdhash = (\<lambda>bs n. Some (rev bs))\<rparr>"

definition fstat_failing_env :: fs_env where
  "fstat_failing_env = demo_env\<lparr>sys_fstat := (\<lambda>fd. (- 1, 4))\<rparr>"

definition demo_out :: verdict where
  "demo_out = \<lparr>entitlements_valid = 7, signature_valid = 7, unrestrict = 7, signer_type = 7,
               is_apple = 7, is_developer_code = 7, cdhash = []\<rparr>"

definition demo_state :: state where
  "demo_state = \<lparr>special_port = 0x0f07, port_space = {0x0103}, host_port_main = 0,
                 amfid_port = 0, fake_amfid_port = 0, amfid_tx = None\<rparr>"

definition demo_calls :: hijack_calls where
  "demo_calls = \<lparr>mach_host_self = 0x0c03, get_kr = KERN_SUCCESS, construct_kr = KERN_SUCCESS,
                 construct_name = 0x1503, set_kr = KERN_SUCCESS\<rparr>"

text \<open>One process runs the daemon: PID 42, with task port \<^verbatim>\<open>0x1203\<close>.\<close>

definition demo_proc_env :: proc_env where
  "demo_proc_env =
     \<lparr>proc_list_pids_with_path = (\<lambda>p. if p = ''/usr/libexec/amfid'' then (True, [42]) else (True, [])),
      task_for_pid = (\<lambda>pid. if pid = 42 then Some 0x1203 else None),
      threadexec_init = (\<lambda>task. Some (Threadexec task))\<rparr>"

definition demo_reply :: reply_t where
  "demo_reply = \<lparr>Head = \<lparr>msgh_bits = 0, msgh_size = 36, msgh_remote_port = 0,
                          msgh_local_port = 0, msgh_id = 0\<rparr>,
                 RetCode = 0, rp_verdict = demo_out, rp_unrestricted_debugging = 7\<rparr>"

definition demo_request :: "request_body \<Rightarrow> request_t" where
  "demo_request body = \<lparr>rq_Head = \<lparr>msgh_bits = 0x1312, msgh_size = 64, msgh_remote_port = 0x2003,
                                   msgh_local_port = 0x1503, msgh_id = 1000\<rparr>,
                        rq_body = body, rq_audit = KERNEL_AUDIT_TOKEN_VALUE\<rparr>"

definition demo_pass :: "request_body \<Rightarrow> mach_port_t option \<Rightarrow> bool \<Rightarrow> kern_return_t \<Rightarrow> iter_env" where
  "demo_pass body ins ok kr = \<lparr>rcv_kr = KERN_SUCCESS, rcv_request = demo_request body,
                               port_insert = ins, call_ok = ok, remote_kr = KERN_SUCCESS,
                               pid_for_task_kr = kr\<rparr>"

text \<open>A dispatcher that marks every reply complex.\<close>

definition complex_server :: "request_t \<Rightarrow> reply_t \<Rightarrow> reply_t \<times> hevent list" where
  "complex_server request reply = (reply\<lparr>Head := (Head reply)\<lparr>msgh_bits := 0x80000012\<rparr>\<rparr>, [])"

text \<open>A request for \<^verbatim>\<open>/bin/ls\<close> at offset 9, beyond the end of the file, whose reply is
  relayed without failure.\<close>

definition demo_scenario_b :: iter_env where
  "demo_scenario_b =
     demo_pass (VerifyCodeDirectory ''/bin/ls'' 9 0 0 0) (Some 0x3003) True KERN_SUCCESS"


text \<open>The request of \<open>demo_scenario_b\<close> in a pass whose remote call fails with the daemon
  dead, and the same request with reply-port bits that are not
  \<^verbatim>\<open>MACH_MSG_TYPE_MOVE_SEND_ONCE\<close>.\<close>

definition demo_dead_pass :: iter_env where
  "demo_dead_pass =
     demo_pass (VerifyCodeDirectory ''/bin/ls'' 9 0 0 0) (Some 0x3003) False KERN_FAILURE"

definition demo_wrong_bits_pass :: iter_env where
  "demo_wrong_bits_pass =
     demo_scenario_b
       \<lparr>rcv_request :=
          (rcv_request demo_scenario_b)
            \<lparr>rq_Head := (rq_Head (rcv_request demo_scenario_b))\<lparr>msgh_bits := 0x1311\<rparr>\<rparr>\<rparr>"

section \<open>Properties of the two procedures\<close>

lemma kern_failure_distinct:
  "KERN_FAILURE \<noteq> KERN_SUCCESS" "KERN_SUCCESS \<noteq> KERN_FAILURE" "KERN_FAILURE \<noteq> MIG_NO_REPLY"
  by (simp_all add: KERN_FAILURE_def KERN_SUCCESS_def MIG_NO_REPLY_def)

lemma compute_cdhash_of_file_fail_keeps:
  "compute_cdhash_of_file env path off h = (False, d, evs) \<Longrightarrow> d = h"
  by (auto simp: compute_cdhash_of_file_def Let_def split: if_splits prod.splits option.splits)

lemma compute_cdhash_of_file_fails_iff:
  "\<not> fst (compute_cdhash_of_file env path file_offset h) \<longleftrightarrow>
     cannot_open env path \<or> fstat_fails env path \<or> offset_out_of_range env path file_offset \<or>
     map_or_hash_fails env path file_offset"
  by (auto simp: compute_cdhash_of_file_def Let_def cannot_open_def fstat_fails_def
      offset_out_of_range_def map_or_hash_fails_def split: prod.splits option.splits)

text \<open>
  C1: when the sender token is the kernel's and \<^verbatim>\<open>compute_cdhash_of_file\<close> succeeds,
  \<^verbatim>\<open>verify_code_directory_mig\<close> returns \<^verbatim>\<open>KERN_SUCCESS\<close> and leaves
  \<^verbatim>\<open>entitlements_valid\<close>, \<^verbatim>\<open>signature_valid\<close>, \<^verbatim>\<open>unrestrict\<close> and \<^verbatim>\<open>is_apple\<close> at 1,
  \<^verbatim>\<open>is_developer_code\<close> and \<^verbatim>\<open>signer_type\<close> at 0, for every port, path, offset and every
  \<^verbatim>\<open>a4\<close>, \<^verbatim>\<open>a5\<close>, \<^verbatim>\<open>a6\<close>.
\<close>

theorem verify_code_directory_grants_full_trust:
  assumes "audit = KERNEL_AUDIT_TOKEN_VALUE"
      and "fst (compute_cdhash_of_file env path file_offset (cdhash out))"
  shows "case verify_code_directory_mig env port path file_offset a4 a5 a6 out audit of
           (kr, out', evs) \<Rightarrow>
             kr = KERN_SUCCESS \<and> entitlements_valid out' = 1 \<and> signature_valid out' = 1 \<and>
             unrestrict out' = 1 \<and> is_apple out' = 1 \<and> is_developer_code out' = 0 \<and>
             signer_type out' = 0"
  using assms by (cases "compute_cdhash_of_file env path file_offset (cdhash out)")
    (auto simp: verify_code_directory_mig_def)

theorem verify_code_directory_grants_full_trust_witness:
  "KERNEL_AUDIT_TOKEN_VALUE = KERNEL_AUDIT_TOKEN_VALUE \<and>
   fst (compute_cdhash_of_file demo_env ''/bin/ls'' 1 (cdhash demo_out)) \<and>
   (case verify_code_directory_mig demo_env 0x0103 ''/bin/ls'' 1 9 8 7 demo_out KERNEL_AUDIT_TOKEN_VALUE of
      (kr, out', evs) \<Rightarrow>
        kr = KERN_SUCCESS \<and> entitlements_valid out' = 1 \<and> signature_valid out' = 1 \<and>
        unrestrict out' = 1 \<and> is_apple out' = 1 \<and> is_developer_code out' = 0 \<and>
        signer_type out' = 0)"
proof -
  have h: "fst (compute_cdhash_of_file demo_env ''/bin/ls'' 1 (cdhash demo_out))"
    by (simp add: compute_cdhash_of_file_def demo_env_def word_le_nat_alt)
  from verify_code_directory_grants_full_trust[OF refl h,
      where port = "0x0103" and ?a4.0 = 9 and ?a5.0 = 8 and ?a6.0 = 7] h
  show ?thesis by simp
qed

text \<open>
  C2: when the sender token is not the kernel's, \<^verbatim>\<open>verify_code_directory_mig\<close> returns
  \<^verbatim>\<open>KERN_FAILURE\<close> after the message \<^verbatim>\<open>Invalid sender\<close>, writes no output, and none of its
  events is an access to the file system: no open, fstat, mmap, hash, munmap or close.
\<close>

theorem verify_code_directory_invalid_sender:
  assumes "audit \<noteq> KERNEL_AUDIT_TOKEN_VALUE"
  shows "case verify_code_directory_mig env port path file_offset a4 a5 a6 out audit of
           (kr, out', evs) \<Rightarrow>
             kr = KERN_FAILURE \<and> out' = out \<and> Printf ''%s: Invalid sender %d'' \<in> set evs \<and>
             filter is_fs_access evs = []"
  using assms by (simp add: verify_code_directory_mig_def)

theorem verify_code_directory_invalid_sender_witness:
  "AuditToken 0 0 0 0 0 501 0 0 \<noteq> KERNEL_AUDIT_TOKEN_VALUE \<and>
   (case verify_code_directory_mig demo_env 0x0103 ''/bin/ls'' 0 0 0 0 demo_out
           (AuditToken 0 0 0 0 0 501 0 0) of
      (kr, out', evs) \<Rightarrow>
        kr = KERN_FAILURE \<and> out' = demo_out \<and> Printf ''%s: Invalid sender %d'' \<in> set evs \<and>
        filter is_fs_access evs = [])"
proof -
  have h: "AuditToken 0 0 0 0 0 501 0 0 \<noteq> KERNEL_AUDIT_TOKEN_VALUE"
    by (simp add: KERNEL_AUDIT_TOKEN_VALUE_def)
  from verify_code_directory_invalid_sender[OF h, where env = demo_env and port = "0x0103"
      and path = "''/bin/ls''" and file_offset = 0 and ?a4.0 = 0 and ?a5.0 = 0 and ?a6.0 = 0
      and out = demo_out] h
  show ?thesis by simp
qed

text \<open>
  C9: \<^verbatim>\<open>permit_unrestricted_debugging_v2\<close> returns \<^verbatim>\<open>KERN_FAILURE\<close>, which is not
  \<^verbatim>\<open>KERN_SUCCESS\<close>, for every port, every content of the output and every sender token.
\<close>

theorem permit_unrestricted_debugging_always_fails:
  "fst (permit_unrestricted_debugging_v2 port unrestricted_debugging audit) = KERN_FAILURE
   \<and> fst (permit_unrestricted_debugging_v2 port unrestricted_debugging audit) \<noteq> KERN_SUCCESS"
  by (simp add: permit_unrestricted_debugging_v2_def KERN_FAILURE_def KERN_SUCCESS_def)

text \<open>
  C10: \<^verbatim>\<open>permit_unrestricted_debugging_v2\<close> never writes through its
  \<^verbatim>\<open>unrestricted_debugging\<close> pointer: the value there after the call is the value before.
\<close>

theorem permit_unrestricted_debugging_keeps_output:
  "fst (snd (permit_unrestricted_debugging_v2 port unrestricted_debugging audit))
     = unrestricted_debugging"
  by (simp add: permit_unrestricted_debugging_v2_def)

section \<open>The port hijacker\<close>

lemma replace_amfid_port_retains:
  "replace_amfid_port k s = (True, s1, evs) \<Longrightarrow> amfid_port s1 = special_port s"
  by (auto simp: replace_amfid_port_def Let_def host_get_amfid_port_def host_set_amfid_port_def
      mach_port_construct_def split: if_splits option.splits)

lemma restore_amfid_port_again:
  "fake_amfid_port s = MACH_PORT_NULL \<Longrightarrow> special_port s = amfid_port s \<or> kr \<noteq> KERN_SUCCESS \<Longrightarrow>
   fst (restore_amfid_port kr s) = s"
  by (auto simp: restore_amfid_port_def Let_def host_set_amfid_port_def mach_port_destroy_def)

lemma restore_amfid_port_fields:
  "fake_amfid_port (fst (restore_amfid_port kr s)) = MACH_PORT_NULL"
  "amfid_port (fst (restore_amfid_port kr s)) = amfid_port s"
  "kr = KERN_SUCCESS \<Longrightarrow> special_port (fst (restore_amfid_port kr s)) = amfid_port s"
  by (auto simp: restore_amfid_port_def Let_def host_set_amfid_port_def mach_port_destroy_def)

lemma restore_amfid_port_failed_keeps_slot:
  "kr \<noteq> KERN_SUCCESS \<Longrightarrow> special_port (fst (restore_amfid_port kr s)) = special_port s"
  by (auto simp: restore_amfid_port_def Let_def host_set_amfid_port_def mach_port_destroy_def)

lemmas demo_hijack_simps =
  replace_amfid_port_def restore_amfid_port_def demo_calls_def demo_state_def
  host_get_amfid_port_def host_set_amfid_port_def mach_port_construct_def mach_port_destroy_def
  KERN_SUCCESS_def KERN_FAILURE_def MACH_PORT_NULL_def MACH_PORT_DEAD_def Let_def

lemma replace_amfid_port_success:
  assumes "replace_amfid_port k s = (True, s1, evs)"
  shows "amfid_port s1 = special_port s" and "fake_amfid_port s1 = construct_name k"
    and "special_port s1 = construct_name k"
    and "port_space s1 = insert (construct_name k) (port_space s)"
  using assms
  by (auto simp: replace_amfid_port_def Let_def host_get_amfid_port_def host_set_amfid_port_def
      mach_port_construct_def split: if_splits option.splits)

lemma restore_amfid_port_result:
  "special_port (fst (restore_amfid_port kr s)) =
     (if kr = KERN_SUCCESS then amfid_port s else special_port s)"
  "snd (restore_amfid_port kr s) =
     (if kr = KERN_SUCCESS then [] else [Printf ''Could not restore fake amfid port''])"
  "port_space (fst (restore_amfid_port kr s)) =
     (if fake_amfid_port s = MACH_PORT_NULL \<or> fake_amfid_port s = MACH_PORT_DEAD
      then port_space s else port_space s - {fake_amfid_port s})"
  "fake_amfid_port (fst (restore_amfid_port kr s)) = MACH_PORT_NULL"
  "amfid_port (fst (restore_amfid_port kr s)) = amfid_port s"
  "host_port_main (fst (restore_amfid_port kr s)) = host_port_main s"
  by (auto simp: restore_amfid_port_def Let_def host_set_amfid_port_def mach_port_destroy_def)

text \<open>
  C3, as stated, fails: \<^verbatim>\<open>restore_amfid_port\<close> only logs when
  \<^verbatim>\<open>host_set_amfid_port\<close> fails. After a successful \<^verbatim>\<open>replace_amfid_port\<close>, a restore
  whose registration fails leaves the fake port in the slot, and a second restore whose
  registration succeeds then changes the slot.
\<close>

theorem restore_with_failed_registration_counterexample:
  "fst (replace_amfid_port demo_calls demo_state) \<and>
   special_port (fst (restore_amfid_port KERN_FAILURE (fst (snd (replace_amfid_port demo_calls demo_state)))))
     \<noteq> special_port demo_state \<and>
   fst (restore_amfid_port KERN_SUCCESS
          (fst (restore_amfid_port KERN_FAILURE (fst (snd (replace_amfid_port demo_calls demo_state))))))
     \<noteq> fst (restore_amfid_port KERN_FAILURE (fst (snd (replace_amfid_port demo_calls demo_state))))"
  by (simp add: demo_hijack_simps)

text \<open>
  C3, amended: after a successful \<^verbatim>\<open>replace_amfid_port\<close>, a \<^verbatim>\<open>restore_amfid_port\<close> whose
  registration call succeeds puts into the slot the port that \<^verbatim>\<open>replace_amfid_port\<close> read from
  it, and logs nothing; one whose registration call fails leaves the fake port in the slot and
  logs \<^verbatim>\<open>Could not restore fake amfid port\<close>. In both cases it destroys the fake port (its
  name, when valid, leaves the task and no other name does), sets \<^verbatim>\<open>fake_amfid_port\<close> to
  \<^verbatim>\<open>MACH_PORT_NULL\<close> and keeps the retained original port. A second
  \<^verbatim>\<open>restore_amfid_port\<close> leaves the slot, the ports of the task and the globals as the first
  left them, whenever the registration of the first succeeded or that of the second fails.
\<close>

theorem hijack_restore_round_trip:
  assumes "replace_amfid_port k s = (True, s1, evs)"
  shows "special_port (fst (restore_amfid_port KERN_SUCCESS s1)) = special_port s
       \<and> snd (restore_amfid_port KERN_SUCCESS s1) = []
       \<and> (krf \<noteq> KERN_SUCCESS \<longrightarrow>
            special_port (fst (restore_amfid_port krf s1)) = construct_name k \<and>
            snd (restore_amfid_port krf s1) = [Printf ''Could not restore fake amfid port''])
       \<and> (construct_name k \<noteq> MACH_PORT_NULL \<and> construct_name k \<noteq> MACH_PORT_DEAD \<longrightarrow>
            port_space (fst (restore_amfid_port kr s1))
              = insert (construct_name k) (port_space s) - {construct_name k})
       \<and> fake_amfid_port (fst (restore_amfid_port kr s1)) = MACH_PORT_NULL
       \<and> amfid_port (fst (restore_amfid_port kr s1)) = special_port s
       \<and> (kr1 = KERN_SUCCESS \<or> kr2 \<noteq> KERN_SUCCESS \<longrightarrow>
            fst (restore_amfid_port kr2 (fst (restore_amfid_port kr1 s1)))
              = fst (restore_amfid_port kr1 s1))"
  using replace_amfid_port_success[OF assms]
  by (auto simp: restore_amfid_port_result restore_amfid_port_fields restore_amfid_port_again)

theorem hijack_restore_round_trip_witness:
  "replace_amfid_port demo_calls demo_state =
     (True, fst (snd (replace_amfid_port demo_calls demo_state)),
      snd (snd (replace_amfid_port demo_calls demo_state)))
   \<and> KERN_FAILURE \<noteq> KERN_SUCCESS
   \<and> construct_name demo_calls \<noteq> MACH_PORT_NULL \<and> construct_name demo_calls \<noteq> MACH_PORT_DEAD
   \<and> (KERN_SUCCESS = KERN_SUCCESS \<or> KERN_FAILURE \<noteq> KERN_SUCCESS)
   \<and> special_port (fst (restore_amfid_port KERN_SUCCESS
        (fst (snd (replace_amfid_port demo_calls demo_state))))) = 0x0f07
   \<and> special_port (fst (restore_amfid_port KERN_FAILURE
        (fst (snd (replace_amfid_port demo_calls demo_state))))) = 0x1503
   \<and> snd (restore_amfid_port KERN_FAILURE (fst (snd (replace_amfid_port demo_calls demo_state))))
       = [Printf ''Could not restore fake amfid port'']
   \<and> port_space (fst (restore_amfid_port KERN_FAILURE
        (fst (snd (replace_amfid_port demo_calls demo_state))))) = {0x0103}
   \<and> fst (restore_amfid_port KERN_FAILURE (fst (restore_amfid_port KERN_SUCCESS
        (fst (snd (replace_amfid_port demo_calls demo_state))))))
      = fst (restore_amfid_port KERN_SUCCESS (fst (snd (replace_amfid_port demo_calls demo_state))))"
proof -
  have h: "replace_amfid_port demo_calls demo_state =
     (True, fst (snd (replace_amfid_port demo_calls demo_state)),
      snd (snd (replace_amfid_port demo_calls demo_state)))"
    by (simp add: demo_hijack_simps)
  have f: "KERN_FAILURE \<noteq> KERN_SUCCESS" by (simp add: KERN_FAILURE_def KERN_SUCCESS_def)
  have v: "construct_name demo_calls \<noteq> MACH_PORT_NULL"
    "construct_name demo_calls \<noteq> MACH_PORT_DEAD" "construct_name demo_calls = 0x1503"
    by (simp_all add: demo_calls_def MACH_PORT_NULL_def MACH_PORT_DEAD_def)
  have s: "special_port demo_state = 0x0f07" "port_space demo_state = {0x0103}"
    by (simp_all add: demo_state_def)
  from hijack_restore_round_trip[OF h, where krf = KERN_FAILURE and kr = KERN_FAILURE
      and ?kr1.0 = KERN_SUCCESS and ?kr2.0 = KERN_FAILURE] h f v s
  show ?thesis by simp
qed

section \<open>The execution context\<close>

lemma create_amfid_threadexec_ignores_task_for_pid:
  "create_amfid_threadexec (env\<lparr>task_for_pid := f\<rparr>) kr s = create_amfid_threadexec env kr s"
  by (simp add: create_amfid_threadexec_def Let_def split: prod.splits option.splits)

lemma create_amfid_threadexec_fails:
  assumes "\<not> fst (proc_list_pids_with_path env AMFID_PATH)
           \<or> length (snd (proc_list_pids_with_path env AMFID_PATH)) \<noteq> 1
           \<or> kr \<noteq> KERN_SUCCESS
           \<or> threadexec_init env (special_port s) = None"
  shows "\<not> fst (create_amfid_threadexec env kr s)"
  using assms
  by (cases "snd (proc_list_pids_with_path env AMFID_PATH)")
    (auto simp: create_amfid_threadexec_def Let_def host_get_amfid_port_def
      split: prod.splits option.splits)

lemma create_amfid_threadexec_context:
  assumes "create_amfid_threadexec env kr s = (True, s', evs)"
  shows "amfid_tx s' = threadexec_init env (special_port s)"
  using assms
  by (auto simp: create_amfid_threadexec_def Let_def host_get_amfid_port_def
      split: prod.splits option.splits if_splits)

text \<open>
  C5: with one process running the daemon, \<^verbatim>\<open>create_amfid_threadexec\<close> succeeds, but the
  context it builds is bound to the port read from the special-port slot (\<^verbatim>\<open>0x0f07\<close>, the
  service port of the daemon), not to the task port of the process found (\<^verbatim>\<open>0x1203\<close>), from
  which the contract builds it. The PID found is only printed.
\<close>

theorem create_amfid_threadexec_binds_registry_port:
  "create_amfid_threadexec demo_proc_env KERN_SUCCESS demo_state =
     (True, demo_state\<lparr>amfid_tx := Some (Threadexec 0x0f07)\<rparr>, [Printf ''Amfid PID: %d''])
   \<and> acquire_execution_context_spec demo_proc_env = Some (Threadexec 0x1203)"
  by (simp add: create_amfid_threadexec_def acquire_execution_context_spec_def demo_proc_env_def
      demo_state_def AMFID_PATH_def host_get_amfid_port_def)

theorem create_amfid_threadexec_binds_registry_port_witness:
  "fst (create_amfid_threadexec demo_proc_env KERN_SUCCESS demo_state)
   \<and> amfid_tx (fst (snd (create_amfid_threadexec demo_proc_env KERN_SUCCESS demo_state)))
       = Some (Threadexec 0x0f07)
   \<and> amfid_tx (fst (snd (create_amfid_threadexec demo_proc_env KERN_SUCCESS demo_state)))
       \<noteq> acquire_execution_context_spec demo_proc_env"
  using create_amfid_threadexec_binds_registry_port by simp

section \<open>The relay loop\<close>


lemma mig_semantics_bits:
  "mig_semantics rq rp = (rq', rp', mevs) \<Longrightarrow> msgh_bits (Head rp') = msgh_bits (Head rp)"
  by (auto simp: mig_semantics_def split: if_splits)

lemma mig_semantics_no_assert:
  "mig_semantics rq rp = (rq', rp', mevs) \<Longrightarrow> AssertFailed s \<notin> set mevs"
  by (auto simp: mig_semantics_def split: if_splits)



lemmas demo_loop_simps =
  demo_pass_def demo_request_def demo_reply_def demo_out_def demo_env_def
  amfid_server_def loop_body_def mig_semantics_def check_amfid_def
  permit_unrestricted_debugging_v2_def verify_code_directory_mig_def compute_cdhash_of_file_def
  KERN_SUCCESS_def KERN_FAILURE_def MIG_NO_REPLY_def MACH_PORT_NULL_def
  MACH_MSGH_BITS_IS_COMPLEX_def MACH_MSGH_BITS_REMOTE_def MACH_MSGH_BITS_COMPLEX_def
  MACH_MSGH_BITS_REMOTE_MASK_def MACH_MSG_TYPE_MOVE_SEND_ONCE_def KERNEL_AUDIT_TOKEN_VALUE_def

subsection \<open>One request at a time\<close>










subsection \<open>The liveness check\<close>








subsection \<open>Complex replies\<close>

lemma loop_body_complex:
  assumes "rcv_kr e = KERN_SUCCESS"
      and "MACH_MSGH_BITS_IS_COMPLEX (msgh_bits (Head (fst (srv (rcv_request e) reply))))"
  shows "loop_body srv reply e =
           ([MachMsgReceive (rcv_kr e), AmfidServer (snd (srv (rcv_request e) reply)),
             AssertFailed ''!MACH_MSGH_BITS_IS_COMPLEX(reply->Head.msgh_bits)''],
            fst (srv (rcv_request e) reply), Abort)"
  using assms
  by (cases "srv (rcv_request e) reply") (simp add: loop_body_def mig_semantics_def)

lemma loop_body_not_complex:
  assumes "loop_body srv reply e = (evs, reply', fl)"
      and "\<not> MACH_MSGH_BITS_IS_COMPLEX (msgh_bits (Head (fst (srv (rcv_request e) reply))))"
  shows "AssertFailed ''!MACH_MSGH_BITS_IS_COMPLEX(reply->Head.msgh_bits)'' \<notin> set evs"
  using assms
  apply (cases "srv (rcv_request e) reply")
  subgoal for r1 devs
    apply (cases "mig_semantics (rcv_request e) r1")
    subgoal for rq2 r2 mevs
      apply (frule mig_semantics_bits)
      apply (frule mig_semantics_no_assert[
            where s = "''!MACH_MSGH_BITS_IS_COMPLEX(reply->Head.msgh_bits)''"])
      apply (auto simp: loop_body_def Let_def check_amfid_def split: if_splits option.splits)
      done
    done
  done

lemma remote_bits_not_complex: "\<not> MACH_MSGH_BITS_IS_COMPLEX (MACH_MSGH_BITS_REMOTE bits)"
  by (simp add: MACH_MSGH_BITS_IS_COMPLEX_def MACH_MSGH_BITS_REMOTE_def
      MACH_MSGH_BITS_COMPLEX_def MACH_MSGH_BITS_REMOTE_MASK_def and.assoc)

lemma amfid_server_not_complex:
  "\<not> MACH_MSGH_BITS_IS_COMPLEX (msgh_bits (Head (fst (amfid_server env request reply))))"
  by (auto simp: amfid_server_def Let_def remote_bits_not_complex
      split: request_body.splits prod.splits)

lemma run_amfid_server_no_complex_assert:
  "AssertFailed ''!MACH_MSGH_BITS_IS_COMPLEX(reply->Head.msgh_bits)''
     \<notin> set (fst (run_amfid_server (amfid_server env) reply es))"
proof (induction es arbitrary: reply)
  case Nil
  show ?case by simp
next
  case (Cons e es)
  obtain evs reply' fl where lb: "loop_body (amfid_server env) reply e = (evs, reply', fl)"
    by (cases "loop_body (amfid_server env) reply e") auto
  from loop_body_not_complex[OF lb amfid_server_not_complex]
  have "AssertFailed ''!MACH_MSGH_BITS_IS_COMPLEX(reply->Head.msgh_bits)'' \<notin> set evs" .
  with lb Cons show ?case by (cases fl) auto
qed

text \<open>
  C8: when the dispatcher leaves a reply marked complex, the pass ends in the failed
  \<^verbatim>\<open>assert\<close>: the process is aborted, with no right transfer and no remote send for that
  reply, and no further request is received. The dispatcher of this protocol never marks a
  reply complex, so that in no run with it this \<^verbatim>\<open>assert\<close> fails.
\<close>

theorem complex_reply_is_fatal:
  "(rcv_kr e = KERN_SUCCESS \<and>
    MACH_MSGH_BITS_IS_COMPLEX (msgh_bits (Head (fst (srv (rcv_request e) reply)))) \<longrightarrow>
      run_amfid_server srv reply (e # es) =
        ([MachMsgReceive (rcv_kr e), AmfidServer (snd (srv (rcv_request e) reply)),
          AssertFailed ''!MACH_MSGH_BITS_IS_COMPLEX(reply->Head.msgh_bits)''], Aborted))
   \<and> \<not> MACH_MSGH_BITS_IS_COMPLEX (msgh_bits (Head (fst (amfid_server env request reply0))))
   \<and> AssertFailed ''!MACH_MSGH_BITS_IS_COMPLEX(reply->Head.msgh_bits)''
        \<notin> set (fst (run_amfid_server (amfid_server env) reply0 es0))"
  using loop_body_complex[of e srv reply] amfid_server_not_complex[of env request reply0]
    run_amfid_server_no_complex_assert[of env reply0 es0]
  by simp

theorem complex_reply_is_fatal_witness:
  "rcv_kr (demo_pass PermitUnrestrictedDebugging (Some 0x3003) True KERN_SUCCESS) = KERN_SUCCESS
   \<and> MACH_MSGH_BITS_IS_COMPLEX (msgh_bits (Head (fst (complex_server
        (rcv_request (demo_pass PermitUnrestrictedDebugging (Some 0x3003) True KERN_SUCCESS))
        demo_reply))))
   \<and> run_amfid_server complex_server demo_reply
        [demo_pass PermitUnrestrictedDebugging (Some 0x3003) True KERN_SUCCESS,
         demo_pass PermitUnrestrictedDebugging (Some 0x3103) True KERN_SUCCESS]
      = ([MachMsgReceive 0, AmfidServer [],
          AssertFailed ''!MACH_MSGH_BITS_IS_COMPLEX(reply->Head.msgh_bits)''], Aborted)
   \<and> AssertFailed ''!MACH_MSGH_BITS_IS_COMPLEX(reply->Head.msgh_bits)''
        \<notin> set (fst (run_amfid_server (amfid_server demo_env) demo_reply
              [demo_pass PermitUnrestrictedDebugging (Some 0x3003) True KERN_SUCCESS]))"
proof -
  have h1: "rcv_kr (demo_pass PermitUnrestrictedDebugging (Some 0x3003) True KERN_SUCCESS)
              = KERN_SUCCESS"
    by (simp add: demo_pass_def)
  have h2: "MACH_MSGH_BITS_IS_COMPLEX (msgh_bits (Head (fst (complex_server
        (rcv_request (demo_pass PermitUnrestrictedDebugging (Some 0x3003) True KERN_SUCCESS))
        demo_reply))))"
    by (simp add: complex_server_def MACH_MSGH_BITS_IS_COMPLEX_def MACH_MSGH_BITS_COMPLEX_def)
  have h3: "snd (complex_server
        (rcv_request (demo_pass PermitUnrestrictedDebugging (Some 0x3003) True KERN_SUCCESS))
        demo_reply) = []"
    by (simp add: complex_server_def)
  from complex_reply_is_fatal[
      where e = "demo_pass PermitUnrestrictedDebugging (Some 0x3003) True KERN_SUCCESS"
        and srv = complex_server and reply = demo_reply
        and es = "[demo_pass PermitUnrestrictedDebugging (Some 0x3103) True KERN_SUCCESS]"
        and env = demo_env and reply0 = demo_reply
        and ?es0.0 = "[demo_pass PermitUnrestrictedDebugging (Some 0x3003) True KERN_SUCCESS]"]
    h1 h2 h3
  show ?thesis by (simp add: KERN_SUCCESS_def)
qed

subsection \<open>A failed hash computation\<close>

lemma remote_bits_idem:
  "MACH_MSGH_BITS_REMOTE (MACH_MSGH_BITS_REMOTE bits) = MACH_MSGH_BITS_REMOTE bits"
  by (simp add: MACH_MSGH_BITS_REMOTE_def and.assoc)

lemma amfid_server_hash_failure:
  assumes "verify_code_directory_mig env (msgh_local_port (rq_Head rq)) path file_offset a4 a5 a6
             (rp_verdict reply) (rq_audit rq) = (KERN_FAILURE, rp_verdict reply, evs)"
      and "rq_body rq = VerifyCodeDirectory path file_offset a4 a5 a6"
  shows "amfid_server env rq reply =
           (reply\<lparr>Head := (Head reply)
                     \<lparr>msgh_bits := MACH_MSGH_BITS_REMOTE (msgh_bits (rq_Head rq)),
                      msgh_remote_port := msgh_remote_port (rq_Head rq),
                      msgh_local_port := MACH_PORT_NULL\<rparr>,
                   RetCode := KERN_FAILURE\<rparr>, evs)"
  using assms by (simp add: amfid_server_def)

lemma run_hash_failure:
  assumes "rcv_kr e = KERN_SUCCESS"
      and "srv (rcv_request e) reply = (r1, evs)"
      and "RetCode r1 = KERN_FAILURE"
      and "\<not> MACH_MSGH_BITS_IS_COMPLEX (msgh_bits (Head r1))"
  shows "run_amfid_server srv reply (e # es) =
     (let pre = [MachMsgReceive KERN_SUCCESS, AmfidServer evs, MachMsgDestroy];
          rport = msgh_remote_port (Head r1)
      in if MACH_MSGH_BITS_REMOTE (msgh_bits (Head r1)) \<noteq> MACH_MSG_TYPE_MOVE_SEND_ONCE then
           (pre @ [AssertFailed
              ''MACH_MSGH_BITS_REMOTE(reply->Head.msgh_bits) == MACH_MSG_TYPE_MOVE_SEND_ONCE''],
            Aborted)
         else
           case port_insert e of
             Some n \<Rightarrow>
               (let r2 = r1\<lparr>Head := (Head r1)\<lparr>msgh_remote_port := n\<rparr>\<rparr> in
                if call_ok e then
                  (pre @ [PortInsert rport (Some n),
                          RemoteSend n (msgh_size (Head r1)) True (remote_kr e)]
                       @ fst (run_amfid_server srv r2 es),
                   snd (run_amfid_server srv r2 es))
                else if pid_for_task_kr e = KERN_SUCCESS then
                  (pre @ [PortInsert rport (Some n),
                          RemoteSend n (msgh_size (Head r1)) False (remote_kr e),
                          LPrintf ''Could not send our reply from amfid: error %d'',
                          RemotePortDeallocate n, PidForTask KERN_SUCCESS]
                       @ fst (run_amfid_server srv r2 es),
                   snd (run_amfid_server srv r2 es))
                else
                  (pre @ [PortInsert rport (Some n),
                          RemoteSend n (msgh_size (Head r1)) False (remote_kr e),
                          LPrintf ''Could not send our reply from amfid: error %d'',
                          RemotePortDeallocate n, PidForTask (pid_for_task_kr e),
                          LPrintf ''Amfid died''],
                   Returned))
           | None \<Rightarrow>
               if pid_for_task_kr e = KERN_SUCCESS then
                 (pre @ [PortInsert rport None,
                         LPrintf ''Could not move the send-once right into amfid'',
                         MachPortDeallocate rport, PidForTask KERN_SUCCESS]
                      @ fst (run_amfid_server srv r1 es),
                  snd (run_amfid_server srv r1 es))
               else
                 (pre @ [PortInsert rport None,
                         LPrintf ''Could not move the send-once right into amfid'',
                         MachPortDeallocate rport, PidForTask (pid_for_task_kr e),
                         LPrintf ''Amfid died''],
                  Returned))"
  using assms
  by (simp add: loop_body_def mig_semantics_def check_amfid_def kern_failure_distinct Let_def
      split: option.splits)

lemma hash_failure_run:
  assumes "verify_code_directory_mig env port path file_offset a4 a5 a6 out audit
             = (KERN_FAILURE, out, evs)"
      and "rcv_kr e = KERN_SUCCESS"
      and "rq_body (rcv_request e) = VerifyCodeDirectory path file_offset a4 a5 a6"
      and "rq_audit (rcv_request e) = audit"
      and "msgh_local_port (rq_Head (rcv_request e)) = port"
      and "rp_verdict reply = out"
  shows "run_amfid_server (amfid_server env) reply (e # es) =
            (let pre = [MachMsgReceive KERN_SUCCESS, AmfidServer evs, MachMsgDestroy];
                 rport = msgh_remote_port (rq_Head (rcv_request e));
                 bits = MACH_MSGH_BITS_REMOTE (msgh_bits (rq_Head (rcv_request e)));
                 r1 = reply\<lparr>Head := (Head reply)\<lparr>msgh_bits := bits, msgh_remote_port := rport,
                                                    msgh_local_port := MACH_PORT_NULL\<rparr>,
                            RetCode := KERN_FAILURE\<rparr>
             in if bits \<noteq> MACH_MSG_TYPE_MOVE_SEND_ONCE then
                  (pre @ [AssertFailed
                     ''MACH_MSGH_BITS_REMOTE(reply->Head.msgh_bits) == MACH_MSG_TYPE_MOVE_SEND_ONCE''],
                   Aborted)
                else
                  case port_insert e of
                    Some n \<Rightarrow>
                      (let r2 = r1\<lparr>Head := (Head r1)\<lparr>msgh_remote_port := n\<rparr>\<rparr> in
                       if call_ok e then
                         (pre @ [PortInsert rport (Some n),
                                 RemoteSend n (msgh_size (Head reply)) True (remote_kr e)]
                              @ fst (run_amfid_server (amfid_server env) r2 es),
                          snd (run_amfid_server (amfid_server env) r2 es))
                       else if pid_for_task_kr e = KERN_SUCCESS then
                         (pre @ [PortInsert rport (Some n),
                                 RemoteSend n (msgh_size (Head reply)) False (remote_kr e),
                                 LPrintf ''Could not send our reply from amfid: error %d'',
                                 RemotePortDeallocate n, PidForTask KERN_SUCCESS]
                              @ fst (run_amfid_server (amfid_server env) r2 es),
                          snd (run_amfid_server (amfid_server env) r2 es))
                       else
                         (pre @ [PortInsert rport (Some n),
                                 RemoteSend n (msgh_size (Head reply)) False (remote_kr e),
                                 LPrintf ''Could not send our reply from amfid: error %d'',
                                 RemotePortDeallocate n, PidForTask (pid_for_task_kr e),
                                 LPrintf ''Amfid died''],
                          Returned))
                  | None \<Rightarrow>
                      if pid_for_task_kr e = KERN_SUCCESS then
                        (pre @ [PortInsert rport None,
                                LPrintf ''Could not move the send-once right into amfid'',
                                MachPortDeallocate rport, PidForTask KERN_SUCCESS]
                             @ fst (run_amfid_server (amfid_server env) r1 es),
                         snd (run_amfid_server (amfid_server env) r1 es))
                      else
                        (pre @ [PortInsert rport None,
                                LPrintf ''Could not move the send-once right into amfid'',
                                MachPortDeallocate rport, PidForTask (pid_for_task_kr e),
                                LPrintf ''Amfid died''],
                         Returned))"
proof -
  have s: "amfid_server env (rcv_request e) reply =
             (reply\<lparr>Head := (Head reply)
                       \<lparr>msgh_bits := MACH_MSGH_BITS_REMOTE (msgh_bits (rq_Head (rcv_request e))),
                        msgh_remote_port := msgh_remote_port (rq_Head (rcv_request e)),
                        msgh_local_port := MACH_PORT_NULL\<rparr>,
                     RetCode := KERN_FAILURE\<rparr>, evs)"
    using assms by (intro amfid_server_hash_failure) simp_all
  have c: "\<not> MACH_MSGH_BITS_IS_COMPLEX
               (msgh_bits (Head (reply\<lparr>Head := (Head reply)
                       \<lparr>msgh_bits := MACH_MSGH_BITS_REMOTE (msgh_bits (rq_Head (rcv_request e))),
                        msgh_remote_port := msgh_remote_port (rq_Head (rcv_request e)),
                        msgh_local_port := MACH_PORT_NULL\<rparr>,
                     RetCode := KERN_FAILURE\<rparr>)))"
    by (simp add: remote_bits_not_complex)
  show ?thesis
    by (subst run_hash_failure[where srv = "amfid_server env" and es = es, OF assms(2) s _ c])
      (auto simp: remote_bits_idem Let_def split: option.splits)
qed

text \<open>
  C4, as stated, fails. The call also fails when \<^verbatim>\<open>fstat\<close> fails, on a file that can be
  opened, with an offset inside the file, and where mapping and hashing would succeed. And
  the loop does not always go on after a failed hash computation: it returns when the relay
  of the reply fails and the daemon is dead, with the next request still to be received, and
  the process is aborted by the second \<^verbatim>\<open>assert\<close> when the reply-port bits of the request
  are not \<^verbatim>\<open>MACH_MSG_TYPE_MOVE_SEND_ONCE\<close>.
\<close>

theorem hash_failure_three_causes_counterexample:
  "fst (verify_code_directory_mig fstat_failing_env 0x0103 ''/bin/ls'' 0 0 0 0 demo_out
          KERNEL_AUDIT_TOKEN_VALUE) = KERN_FAILURE
   \<and> \<not> (cannot_open fstat_failing_env ''/bin/ls''
        \<or> offset_out_of_range fstat_failing_env ''/bin/ls'' 0
        \<or> map_or_hash_fails fstat_failing_env ''/bin/ls'' 0)
   \<and> run_amfid_server (amfid_server demo_env) demo_reply
        [demo_dead_pass, demo_pass PermitUnrestrictedDebugging (Some 0x3103) True KERN_SUCCESS]
      = ([MachMsgReceive KERN_SUCCESS,
          AmfidServer [Printf ''%s(%s, %llu, %u, %u, %u)'', SysOpen ''/bin/ls'', SysFstat 3,
                       Printf ''Invalid file offset'', SysClose 3],
          MachMsgDestroy, PortInsert 0x2003 (Some 0x3003),
          RemoteSend 0x3003 36 False KERN_SUCCESS,
          LPrintf ''Could not send our reply from amfid: error %d'',
          RemotePortDeallocate 0x3003, PidForTask KERN_FAILURE, LPrintf ''Amfid died''],
         Returned)
   \<and> run_amfid_server (amfid_server demo_env) demo_reply
        [demo_wrong_bits_pass,
         demo_pass PermitUnrestrictedDebugging (Some 0x3103) True KERN_SUCCESS]
      = ([MachMsgReceive KERN_SUCCESS,
          AmfidServer [Printf ''%s(%s, %llu, %u, %u, %u)'', SysOpen ''/bin/ls'', SysFstat 3,
                       Printf ''Invalid file offset'', SysClose 3],
          MachMsgDestroy,
          AssertFailed
            ''MACH_MSGH_BITS_REMOTE(reply->Head.msgh_bits) == MACH_MSG_TYPE_MOVE_SEND_ONCE''],
         Aborted)"
  by (simp add: demo_loop_simps demo_dead_pass_def demo_wrong_bits_pass_def demo_scenario_b_def
      fstat_failing_env_def cannot_open_def offset_out_of_range_def map_or_hash_fails_def
      word_le_nat_alt)

text \<open>
  C4, amended: with the kernel's sender token, \<^verbatim>\<open>verify_code_directory_mig\<close> returns
  \<^verbatim>\<open>KERN_FAILURE\<close> exactly when the file cannot be opened, \<^verbatim>\<open>fstat\<close> fails on it, the
  offset is not below its size, or mapping or hashing fails. It then writes no digest and no
  other output. The pass of the loop that dispatches such a request rejects only that
  request: the reply carries \<^verbatim>\<open>KERN_FAILURE\<close> and the verdict and digest of the buffer as
  they were, the rights of the request are released by \<^verbatim>\<open>mach_msg_destroy\<close>, and the reply
  is relayed as any other. The process is aborted by the second \<^verbatim>\<open>assert\<close> when the
  reply-port bits of the request are not \<^verbatim>\<open>MACH_MSG_TYPE_MOVE_SEND_ONCE\<close>; the loop returns
  when the relay fails and the daemon is dead; in every other case the loop goes on with the
  next receive.
\<close>

theorem hash_failure_rejects_one_request:
  assumes "audit = KERNEL_AUDIT_TOKEN_VALUE"
      and "verify_code_directory_mig env port path file_offset a4 a5 a6 out audit = (kr, out', evs)"
  shows "(kr = KERN_FAILURE \<longleftrightarrow>
            cannot_open env path \<or> fstat_fails env path \<or>
            offset_out_of_range env path file_offset \<or> map_or_hash_fails env path file_offset)
       \<and> (kr = KERN_FAILURE \<longrightarrow> out' = out)
       \<and> (kr = KERN_FAILURE \<and> rcv_kr e = KERN_SUCCESS \<and>
          rq_body (rcv_request e) = VerifyCodeDirectory path file_offset a4 a5 a6 \<and>
          rq_audit (rcv_request e) = audit \<and>
          msgh_local_port (rq_Head (rcv_request e)) = port \<and> rp_verdict reply = out \<longrightarrow>
          run_amfid_server (amfid_server env) reply (e # es) =
            (let pre = [MachMsgReceive KERN_SUCCESS, AmfidServer evs, MachMsgDestroy];
                 rport = msgh_remote_port (rq_Head (rcv_request e));
                 bits = MACH_MSGH_BITS_REMOTE (msgh_bits (rq_Head (rcv_request e)));
                 r1 = reply\<lparr>Head := (Head reply)\<lparr>msgh_bits := bits, msgh_remote_port := rport,
                                                    msgh_local_port := MACH_PORT_NULL\<rparr>,
                            RetCode := KERN_FAILURE\<rparr>
             in if bits \<noteq> MACH_MSG_TYPE_MOVE_SEND_ONCE then
                  (pre @ [AssertFailed
                     ''MACH_MSGH_BITS_REMOTE(reply->Head.msgh_bits) == MACH_MSG_TYPE_MOVE_SEND_ONCE''],
                   Aborted)
                else
                  case port_insert e of
                    Some n \<Rightarrow>
                      (let r2 = r1\<lparr>Head := (Head r1)\<lparr>msgh_remote_port := n\<rparr>\<rparr> in
                       if call_ok e then
                         (pre @ [PortInsert rport (Some n),
                                 RemoteSend n (msgh_size (Head reply)) True (remote_kr e)]
                              @ fst (run_amfid_server (amfid_server env) r2 es),
                          snd (run_amfid_server (amfid_server env) r2 es))
                       else if pid_for_task_kr e = KERN_SUCCESS then
                         (pre @ [PortInsert rport (Some n),
                                 RemoteSend n (msgh_size (Head reply)) False (remote_kr e),
                                 LPrintf ''Could not send our reply from amfid: error %d'',
                                 RemotePortDeallocate n, PidForTask KERN_SUCCESS]
                              @ fst (run_amfid_server (amfid_server env) r2 es),
                          snd (run_amfid_server (amfid_server env) r2 es))
                       else
                         (pre @ [PortInsert rport (Some n),
                                 RemoteSend n (msgh_size (Head reply)) False (remote_kr e),
                                 LPrintf ''Could not send our reply from amfid: error %d'',
                                 RemotePortDeallocate n, PidForTask (pid_for_task_kr e),
                                 LPrintf ''Amfid died''],
                          Returned))
                  | None \<Rightarrow>
                      if pid_for_task_kr e = KERN_SUCCESS then
                        (pre @ [PortInsert rport None,
                                LPrintf ''Could not move the send-once right into amfid'',
                                MachPortDeallocate rport, PidForTask KERN_SUCCESS]
                             @ fst (run_amfid_server (amfid_server env) r1 es),
                         snd (run_amfid_server (amfid_server env) r1 es))
                      else
                        (pre @ [PortInsert rport None,
                                LPrintf ''Could not move the send-once right into amfid'',
                                MachPortDeallocate rport, PidForTask (pid_for_task_kr e),
                                LPrintf ''Amfid died''],
                         Returned)))"
proof -
  obtain ok d hevs
    where c: "compute_cdhash_of_file env path file_offset (cdhash out) = (ok, d, hevs)"
    by (cases "compute_cdhash_of_file env path file_offset (cdhash out)") auto
  have 1: "kr = KERN_FAILURE \<longleftrightarrow> \<not> ok"
    using assms c
    by (auto simp: verify_code_directory_mig_def kern_failure_distinct split: if_splits)
  have 2: "\<not> ok \<longleftrightarrow> cannot_open env path \<or> fstat_fails env path \<or>
            offset_out_of_range env path file_offset \<or> map_or_hash_fails env path file_offset"
    using compute_cdhash_of_file_fails_iff[of env path file_offset "cdhash out"] c by simp
  have 3: "kr = KERN_FAILURE \<longrightarrow> out' = out"
    using assms c compute_cdhash_of_file_fail_keeps[of env path file_offset "cdhash out" d hevs]
    by (auto simp: verify_code_directory_mig_def kern_failure_distinct split: if_splits)
  show ?thesis
    using 1 2 3 hash_failure_run[of env port path file_offset a4 a5 a6 out audit evs e reply es]
      assms(2)
    by (auto simp del: run_amfid_server.simps)
qed

theorem hash_failure_rejects_one_request_witness:
  "KERNEL_AUDIT_TOKEN_VALUE = KERNEL_AUDIT_TOKEN_VALUE
   \<and> verify_code_directory_mig demo_env 0x1503 ''/bin/ls'' 9 0 0 0 demo_out KERNEL_AUDIT_TOKEN_VALUE
       = (KERN_FAILURE, demo_out,
          [Printf ''%s(%s, %llu, %u, %u, %u)'', SysOpen ''/bin/ls'', SysFstat 3,
           Printf ''Invalid file offset'', SysClose 3])
   \<and> offset_out_of_range demo_env ''/bin/ls'' 9
   \<and> rcv_kr demo_scenario_b = KERN_SUCCESS
   \<and> rq_body (rcv_request demo_scenario_b) = VerifyCodeDirectory ''/bin/ls'' 9 0 0 0
   \<and> rq_audit (rcv_request demo_scenario_b) = KERNEL_AUDIT_TOKEN_VALUE
   \<and> msgh_local_port (rq_Head (rcv_request demo_scenario_b)) = 0x1503
   \<and> rp_verdict demo_reply = demo_out
   \<and> run_amfid_server (amfid_server demo_env) demo_reply
        [demo_scenario_b, demo_pass PermitUnrestrictedDebugging (Some 0x3103) True KERN_SUCCESS]
      = ([MachMsgReceive KERN_SUCCESS,
          AmfidServer [Printf ''%s(%s, %llu, %u, %u, %u)'', SysOpen ''/bin/ls'', SysFstat 3,
                       Printf ''Invalid file offset'', SysClose 3],
          MachMsgDestroy, PortInsert 0x2003 (Some 0x3003),
          RemoteSend 0x3003 36 True KERN_SUCCESS,
          MachMsgReceive KERN_SUCCESS, AmfidServer [Printf ''%s()''], MachMsgDestroy,
          PortInsert 0x2003 (Some 0x3103), RemoteSend 0x3103 36 True KERN_SUCCESS],
         Blocked)"
proof -
  have h2: "verify_code_directory_mig demo_env 0x1503 ''/bin/ls'' 9 0 0 0 demo_out
              KERNEL_AUDIT_TOKEN_VALUE
       = (KERN_FAILURE, demo_out,
          [Printf ''%s(%s, %llu, %u, %u, %u)'', SysOpen ''/bin/ls'', SysFstat 3,
           Printf ''Invalid file offset'', SysClose 3])"
    by (simp add: verify_code_directory_mig_def compute_cdhash_of_file_def demo_env_def
        demo_out_def word_le_nat_alt)
  have h3: "rcv_kr demo_scenario_b = KERN_SUCCESS"
    "rq_body (rcv_request demo_scenario_b) = VerifyCodeDirectory ''/bin/ls'' 9 0 0 0"
    "rq_audit (rcv_request demo_scenario_b) = KERNEL_AUDIT_TOKEN_VALUE"
    "msgh_local_port (rq_Head (rcv_request demo_scenario_b)) = 0x1503"
    by (simp_all add: demo_scenario_b_def demo_pass_def demo_request_def)
  have h4: "rp_verdict demo_reply = demo_out"
    by (simp add: demo_reply_def)
  have o: "offset_out_of_range demo_env ''/bin/ls'' 9"
    by (simp add: offset_out_of_range_def demo_env_def word_le_nat_alt)
  have r: "run_amfid_server (amfid_server demo_env) demo_reply
        [demo_scenario_b, demo_pass PermitUnrestrictedDebugging (Some 0x3103) True KERN_SUCCESS]
      = ([MachMsgReceive KERN_SUCCESS,
          AmfidServer [Printf ''%s(%s, %llu, %u, %u, %u)'', SysOpen ''/bin/ls'', SysFstat 3,
                       Printf ''Invalid file offset'', SysClose 3],
          MachMsgDestroy, PortInsert 0x2003 (Some 0x3003),
          RemoteSend 0x3003 36 True KERN_SUCCESS,
          MachMsgReceive KERN_SUCCESS, AmfidServer [Printf ''%s()''], MachMsgDestroy,
          PortInsert 0x2003 (Some 0x3103), RemoteSend 0x3103 36 True KERN_SUCCESS],
         Blocked)"
    by (simp add: demo_loop_simps demo_scenario_b_def word_le_nat_alt)
  from hash_failure_rejects_one_request[OF refl h2,
      where e = demo_scenario_b and reply = demo_reply
        and es = "[demo_pass PermitUnrestrictedDebugging (Some 0x3103) True KERN_SUCCESS]"]
    h2 h3 h4 o r
  show ?thesis by blast
qed

end
